theory Spec2Isabelle
  imports Complex_Main "HOL-Library.Multiset" "HOL-Library.Sublist" "HOL-Library.Char_ord"
    "HOL-Library.List_Lexorder"
begin

section \<open>Data model\<close>

text \<open>
  Every forum message carries \<open>id\<close>, \<open>timestamp\<close> (milliseconds, a whole number) and
  \<open>author\<close>; the message interfaces of the library extend that common part.  The field
  \<open>id\<close> is written \<open>id'\<close> here, since \<open>id\<close> is HOL's identity function.  The read models
  \<open>Cell\<close>, \<open>Post\<close> and \<open>Comment\<close> of the library extend \<open>CellMessage\<close>, \<open>PostMessage\<close> and
  \<open>CommentMessage\<close> by computed fields that none of the functions below reads, so those
  functions are typed over the record schemes and apply to every extension.
\<close>

record MessageBase =
  id' :: string
  timestamp :: int
  author :: string

record CellMessage = MessageBase +
  name :: string
  description :: string
  icon :: "string option"

record PostMessage = MessageBase +
  cellId :: string
  title :: string
  content :: string

record CommentMessage = MessageBase +
  postId :: string
  commentContent :: string

record VoteMessage = MessageBase +
  targetId :: string
  "value" :: int

datatype EModerationAction = MODERATE_ACTION | UNMODERATE_ACTION

record ModerateMessage = MessageBase +
  action :: EModerationAction
  targetType :: string
  modTargetId :: string
  modCellId :: string
  reason :: "string option"

datatype EDisplayPreference = CALL_SIGN | WALLET_ADDRESS

record UserProfileUpdateMessage = MessageBase +
  callSign :: "string option"
  displayPreference :: EDisplayPreference

datatype MessageType = CELL | POST | COMMENT | VOTE | MODERATE | USER_PROFILE_UPDATE

text \<open>
  \<open>OpchanMessage\<close> is the union of the six message interfaces, each with the signature
  fields of \<open>SignedMessage\<close>.  The union is a datatype (the \<open>type\<close> field is its tag), and
  the signed message is the unsigned one together with the three signature fields;
  \<open>delegationProof\<close> is optional.
\<close>

datatype UnsignedMessage =
    Cell CellMessage
  | Post PostMessage
  | Comment CommentMessage
  | Vote VoteMessage
  | Moderate ModerateMessage
  | ProfileUpdate UserProfileUpdateMessage

record DelegationProof =
  authMessage :: string
  walletSignature :: string
  expiryTimestamp :: int
  walletAddress :: string

record OpchanMessage =
  unsigned :: UnsignedMessage
  signature :: string
  browserPubKey :: string
  delegationProof :: "DelegationProof option"

fun messageType :: "UnsignedMessage \<Rightarrow> MessageType" where
  "messageType (Cell _) = CELL"
| "messageType (Post _) = POST"
| "messageType (Comment _) = COMMENT"
| "messageType (Vote _) = VOTE"
| "messageType (Moderate _) = MODERATE"
| "messageType (ProfileUpdate _) = USER_PROFILE_UPDATE"

fun typeString :: "MessageType \<Rightarrow> string" where
  "typeString CELL = ''cell''"
| "typeString POST = ''post''"
| "typeString COMMENT = ''comment''"
| "typeString VOTE = ''vote''"
| "typeString MODERATE = ''moderate''"
| "typeString USER_PROFILE_UPDATE = ''user_profile_update''"

fun messageId :: "UnsignedMessage \<Rightarrow> string" where
  "messageId (Cell m) = id' m"
| "messageId (Post m) = id' m"
| "messageId (Comment m) = id' m"
| "messageId (Vote m) = id' m"
| "messageId (Moderate m) = id' m"
| "messageId (ProfileUpdate m) = id' m"

fun messageTimestamp :: "UnsignedMessage \<Rightarrow> int" where
  "messageTimestamp (Cell m) = timestamp m"
| "messageTimestamp (Post m) = timestamp m"
| "messageTimestamp (Comment m) = timestamp m"
| "messageTimestamp (Vote m) = timestamp m"
| "messageTimestamp (Moderate m) = timestamp m"
| "messageTimestamp (ProfileUpdate m) = timestamp m"

fun messageAuthor :: "UnsignedMessage \<Rightarrow> string" where
  "messageAuthor (Cell m) = author m"
| "messageAuthor (Post m) = author m"
| "messageAuthor (Comment m) = author m"
| "messageAuthor (Vote m) = author m"
| "messageAuthor (Moderate m) = author m"
| "messageAuthor (ProfileUpdate m) = author m"

section \<open>Strings\<close>

text \<open>
  \<^verbatim>\<open>n.toString()\<close> of a whole number: its decimal digits, with a leading minus sign for a
  negative one (JavaScript leaves this form only from \<open>10^21\<close> on, far beyond any
  timestamp in milliseconds).
\<close>

definition digitChar :: "nat \<Rightarrow> char" where
  "digitChar d = ''0123456789'' ! d"

fun natToString :: "nat \<Rightarrow> string" where
  "natToString n =
     (if n < 10 then [digitChar n] else natToString (n div 10) @ [digitChar (n mod 10)])"

declare natToString.simps [simp del]

definition toString :: "int \<Rightarrow> string" where
  "toString i = (if i < 0 then CHR ''-'' # natToString (nat (- i)) else natToString (nat i))"

text \<open>\<^verbatim>\<open>s.includes(t)\<close>: \<open>t\<close> occurs in \<open>s\<close> as a contiguous run of characters.\<close>

fun str_includes :: "string \<Rightarrow> string \<Rightarrow> bool" where
  "str_includes [] t = (t = [])"
| "str_includes (c # s) t = (prefix t (c # s) \<or> str_includes s t)"

text \<open>
  The regular expression
  \<^verbatim>\<open>/^[0-9a-f]{8}-[0-9a-f]{4}-[0-9a-f]{4}-[0-9a-f]{4}-[0-9a-f]{12}$/i\<close>:
  groups of hexadecimal digits of the given lengths, separated by hyphens, and nothing
  else; the flag \<open>i\<close> admits the capital letters.
\<close>

definition isHexDigit :: "char \<Rightarrow> bool" where
  "isHexDigit c = (c \<in> set ''0123456789abcdefABCDEF'')"

fun hexGroups :: "nat list \<Rightarrow> string \<Rightarrow> bool" where
  "hexGroups [] s = (s = [])"
| "hexGroups [n] s = (length s = n \<and> list_all isHexDigit s)"
| "hexGroups (n # ns) s =
     (length (take n s) = n \<and> list_all isHexDigit (take n s) \<and>
      (case drop n s of [] \<Rightarrow> False | c # r \<Rightarrow> c = CHR ''-'' \<and> hexGroups ns r))"

definition sessionIdRegexTest :: "string \<Rightarrow> bool" where
  "sessionIdRegexTest s = hexGroups [8, 4, 4, 4, 12] s"


section \<open>Message verification\<close>

text \<open>
  What a call can observe besides its argument: the wall clock (\<^verbatim>\<open>Date.now()\<close>) and the
  external libraries (\<open>JSON.stringify\<close>, SHA-512, hex decoding, Ed25519 verification of
  \<open>@noble/ed25519\<close>, and viem's \<open>verifyMessage\<close> of a wallet signature, with its arguments
  in the order \<open>account\<close>, \<open>message\<close>, \<open>signature\<close>).  The libraries are deterministic
  functions of their arguments.
\<close>

record Env =
  dateNow :: int
  JSON_stringify :: "UnsignedMessage \<Rightarrow> string"
  sha512 :: "string \<Rightarrow> string"
  hexToBytes :: "string \<Rightarrow> string"
  ed25519_verify :: "string \<Rightarrow> string \<Rightarrow> string \<Rightarrow> bool"
  viem_verifyMessage :: "string \<Rightarrow> string \<Rightarrow> string \<Rightarrow> bool"

text \<open>
  \<^verbatim>\<open>JSON.stringify({...message, signature: undefined, browserPubKey: undefined,
  delegationProof: undefined})\<close>: properties set to \<open>undefined\<close> are left out, so what is
  serialised is the unsigned message.
\<close>

definition messagePayload :: "Env \<Rightarrow> OpchanMessage \<Rightarrow> string" where
  "messagePayload env message = JSON_stringify env (unsigned message)"

definition signatureValid :: "Env \<Rightarrow> OpchanMessage \<Rightarrow> bool" where
  "signatureValid env message =
     ed25519_verify env (hexToBytes env (signature message))
       (sha512 env (messagePayload env message))
       (hexToBytes env (browserPubKey message))"

definition verifyMessage :: "Env \<Rightarrow> OpchanMessage \<Rightarrow> bool" where
  "verifyMessage env message =
     (if \<not> signatureValid env message then False
      else case delegationProof message of
        Some proof \<Rightarrow>
          (let walletSigValid =
                 viem_verifyMessage env (walletAddress proof) (authMessage proof)
                   (walletSignature proof)
           in if \<not> walletSigValid then False
              else if \<not> str_includes (authMessage proof) (browserPubKey message) then False
              else if \<not> str_includes (authMessage proof) (walletAddress proof) then False
              else if \<not> str_includes (authMessage proof) (toString (expiryTimestamp proof))
                then False
              else True)
      | None \<Rightarrow> sessionIdRegexTest (messageAuthor (unsigned message)))"

section \<open>Relevance score\<close>



section \<open>The content hook: derived maps\<close>

subsection \<open>commentsByPost\<close>




subsection \<open>cellsWithStats\<close>











section \<open>The local database\<close>

record Following =
  followingId :: string
  userId :: string
  followedAddress :: string
  followedAt :: int

record Bookmark =
  bookmarkId :: string
  bookmarkUserId :: string
  createdAt :: int

text \<open>
  Modelled from the spec: the class \<open>LocalDatabase\<close> (its state, \<open>addFollowing\<close>,
  \<open>removeFollowing\<close>, \<open>isFollowing\<close> and \<open>applyMessage\<close>) is missing from the sources; only
  its callers and its documentation are there.  The state has the in-memory indexes of the
  specification: one map per collection, votes keyed by \<open>(target_id, author)\<close>, moderation
  records keyed by \<open>(cell_id, target_kind, target_id)\<close>, identities keyed by address (an
  identity is represented by the profile update that created it), bookmarks and following
  records keyed by their \<open>id\<close>, the set \<open>seen\<close> of deduplication keys, the pending ids and
  the last synchronisation time.
\<close>

record LocalDatabase =
  db_cells :: "string \<rightharpoonup> CellMessage"
  db_posts :: "string \<rightharpoonup> PostMessage"
  db_comments :: "string \<rightharpoonup> CommentMessage"
  db_votes :: "(string \<times> string) \<rightharpoonup> VoteMessage"
  db_moderations :: "(string \<times> string \<times> string) \<rightharpoonup> ModerateMessage"
  db_identities :: "string \<rightharpoonup> UserProfileUpdateMessage"
  db_bookmarks :: "string \<rightharpoonup> Bookmark"
  db_following :: "string \<rightharpoonup> Following"
  db_seen :: "string set"
  db_pending :: "string set"
  last_sync_ms :: "int option"

subsection \<open>Following records\<close>

text \<open>
  Modelled from the spec: \<open>LocalDatabase.addFollowing\<close>, which is missing from the sources.
  The specification keeps \<open>following\<close> as a map from a record's \<open>id\<close> to the record.
\<close>

definition addFollowing :: "LocalDatabase \<Rightarrow> Following \<Rightarrow> LocalDatabase" where
  "addFollowing db f = db\<lparr>db_following := (db_following db)(followingId f \<mapsto> f)\<rparr>"

text \<open>
  Modelled from the spec: \<open>LocalDatabase.removeFollowing\<close>, which is missing from the
  sources; it drops the record stored under the given \<open>id\<close>.
\<close>

definition removeFollowing :: "LocalDatabase \<Rightarrow> string \<Rightarrow> LocalDatabase" where
  "removeFollowing db fid = db\<lparr>db_following := (db_following db)(fid := None)\<rparr>"

text \<open>
  Modelled from the spec: \<open>LocalDatabase.isFollowing\<close>, which is missing from the sources.
  A following record has the \<open>id\<close> \<open>user_id + ":" + followed_address\<close>, and the check looks
  that \<open>id\<close> up in the \<open>following\<close> map.
\<close>

definition db_isFollowing :: "LocalDatabase \<Rightarrow> string \<Rightarrow> string \<Rightarrow> bool" where
  "db_isFollowing db u a = (db_following db (u @ '':'' @ a) \<noteq> None)"

text \<open>
  \<open>FollowingService\<close>, from the sources.  The database singleton is passed in and returned;
  \<open>now\<close> is the value of \<^verbatim>\<open>Date.now()\<close>.
\<close>

definition followUser ::
  "int \<Rightarrow> LocalDatabase \<Rightarrow> string \<Rightarrow> string \<Rightarrow> Following \<times> LocalDatabase" where
  "followUser now db u a =
     (let f = \<lparr>followingId = u @ '':'' @ a, userId = u, followedAddress = a,
                followedAt = now\<rparr>
      in (f, addFollowing db f))"

definition unfollowUser :: "LocalDatabase \<Rightarrow> string \<Rightarrow> string \<Rightarrow> LocalDatabase" where
  "unfollowUser db u a = (let fid = u @ '':'' @ a in removeFollowing db fid)"

definition toggleFollow ::
  "int \<Rightarrow> LocalDatabase \<Rightarrow> string \<Rightarrow> string \<Rightarrow> bool \<times> LocalDatabase" where
  "toggleFollow now db u a =
     (let isFollowing = db_isFollowing db u a
      in if isFollowing then (False, unfollowUser db u a)
         else (True, snd (followUser now db u a)))"

definition isFollowing :: "LocalDatabase \<Rightarrow> string \<Rightarrow> string \<Rightarrow> bool" where
  "isFollowing db u a = db_isFollowing db u a"

subsection \<open>Applying a message\<close>

text \<open>
  The deduplication key, as the architecture document gives it:
  \<^verbatim>\<open>`${message.type}:${message.id}:${message.timestamp}`\<close>.  The outcome of
  \<open>apply_message\<close> is one of rejected, duplicate and accepted.
\<close>

definition messageKey :: "UnsignedMessage \<Rightarrow> string" where
  "messageKey m =
     typeString (messageType m) @ '':'' @ messageId m @ '':'' @ toString (messageTimestamp m)"

datatype ApplyResult = Rejected | Duplicate | Accepted

text \<open>
  Modelled from the spec: step 4 of \<open>apply_message\<close>, the update of the primary index,
  which is missing from the sources.  Cell, post, comment and profile update: insert if
  absent.  Vote: the slot \<open>(target_id, author)\<close> is written if and only if it is empty or
  the incoming timestamp is strictly greater than the stored one.  Moderation: the slot
  \<open>(cell_id, target_kind, target_id)\<close> takes the record with the later timestamp, a tie
  going to the lexicographically greater message id.
\<close>

fun updateIndex :: "LocalDatabase \<Rightarrow> UnsignedMessage \<Rightarrow> LocalDatabase" where
  "updateIndex db (Cell m) =
     (if db_cells db (id' m) = None then db\<lparr>db_cells := (db_cells db)(id' m \<mapsto> m)\<rparr>
      else db)"
| "updateIndex db (Post m) =
     (if db_posts db (id' m) = None then db\<lparr>db_posts := (db_posts db)(id' m \<mapsto> m)\<rparr>
      else db)"
| "updateIndex db (Comment m) =
     (if db_comments db (id' m) = None
      then db\<lparr>db_comments := (db_comments db)(id' m \<mapsto> m)\<rparr> else db)"
| "updateIndex db (ProfileUpdate m) =
     (if db_identities db (author m) = None
      then db\<lparr>db_identities := (db_identities db)(author m \<mapsto> m)\<rparr> else db)"
| "updateIndex db (Vote m) =
     (case db_votes db (targetId m, author m) of
        None \<Rightarrow> db\<lparr>db_votes := (db_votes db)((targetId m, author m) \<mapsto> m)\<rparr>
      | Some stored \<Rightarrow>
          if timestamp stored < timestamp m
          then db\<lparr>db_votes := (db_votes db)((targetId m, author m) \<mapsto> m)\<rparr> else db)"
| "updateIndex db (Moderate m) =
     (case db_moderations db (modCellId m, targetType m, modTargetId m) of
        None \<Rightarrow>
          db\<lparr>db_moderations :=
               (db_moderations db)((modCellId m, targetType m, modTargetId m) \<mapsto> m)\<rparr>
      | Some stored \<Rightarrow>
          if timestamp stored < timestamp m \<or>
             (timestamp stored = timestamp m \<and> id' stored < id' m)
          then db\<lparr>db_moderations :=
                 (db_moderations db)((modCellId m, targetType m, modTargetId m) \<mapsto> m)\<rparr>
          else db)"

text \<open>
  Modelled from the spec: step 6 of \<open>apply_message\<close>,
  \<open>last_sync_ms = max(last_sync_ms, message.timestamp)\<close>, where \<open>last_sync_ms\<close> may still be
  null.
\<close>

definition bumpLastSync :: "int option \<Rightarrow> int \<Rightarrow> int option" where
  "bumpLastSync lastSync ts =
     (case lastSync of None \<Rightarrow> Some ts | Some l \<Rightarrow> Some (max l ts))"

text \<open>
  Modelled from the spec: \<open>apply_message\<close> (\<open>LocalDatabase.applyMessage\<close>), which is missing
  from the sources.  The steps are those of the specification: structural validation
  (the validator \<open>isValidStructure\<close> is missing too, and is a parameter), cryptographic
  verification, the duplicate check on the key, the index update, the insertion into
  \<open>seen\<close> and the bump of \<open>last_sync_ms\<close>.  Writing to the durable store is fire-and-forget
  and leaves the in-memory state as it is.
\<close>

definition apply_message ::
  "Env \<Rightarrow> (OpchanMessage \<Rightarrow> bool) \<Rightarrow> LocalDatabase \<Rightarrow> OpchanMessage
     \<Rightarrow> ApplyResult \<times> LocalDatabase" where
  "apply_message env isValidStructure db raw =
     (if \<not> isValidStructure raw then (Rejected, db)
      else if \<not> verifyMessage env raw then (Rejected, db)
      else let key = messageKey (unsigned raw)
           in if key \<in> db_seen db then (Duplicate, db)
              else let db = updateIndex db (unsigned raw);
                       db = db\<lparr>db_seen := insert key (db_seen db)\<rparr>;
                       db = db\<lparr>last_sync_ms :=
                              bumpLastSync (last_sync_ms db) (messageTimestamp (unsigned raw))\<rparr>
                   in (Accepted, db))"

section \<open>Example data\<close>




definition emptyDatabase :: LocalDatabase where
  "emptyDatabase =
     \<lparr>db_cells = Map.empty, db_posts = Map.empty, db_comments = Map.empty,
      db_votes = Map.empty, db_moderations = Map.empty, db_identities = Map.empty,
      db_bookmarks = Map.empty, db_following = Map.empty, db_seen = {}, db_pending = {},
      last_sync_ms = None\<rparr>"

text \<open>An environment in which every signature check succeeds, so that the remaining
  checks decide.\<close>

definition permissiveEnv :: Env where
  "permissiveEnv =
     \<lparr>dateNow = 0, JSON_stringify = (\<lambda>_. []), sha512 = (\<lambda>s. s), hexToBytes = (\<lambda>s. s),
      ed25519_verify = (\<lambda>_ _ _. True), viem_verifyMessage = (\<lambda>_ _ _. True)\<rparr>"

definition sessionId :: string where
  "sessionId = ''a3f5c2d1-8e9b-4c7a-b6d5-3e2f1a0b9c8d''"


definition exampleVote :: "string \<Rightarrow> int \<Rightarrow> int \<Rightarrow> VoteMessage" where
  "exampleVote i ts v =
     \<lparr>id' = i, timestamp = ts, author = sessionId, targetId = ''p1'', value = v\<rparr>"

text \<open>A message of an anonymous session: signed by a device key, without a proof.\<close>

definition anonymousMessage :: "UnsignedMessage \<Rightarrow> OpchanMessage" where
  "anonymousMessage u =
     \<lparr>unsigned = u, signature = ''5e'', browserPubKey = ''aa11'', delegationProof = None\<rparr>"

text \<open>A wallet's proof for the device key \<open>aa11\<close>, and a post that carries it and names
  the device key \<open>k\<close> as its signer.\<close>

definition exampleProof :: DelegationProof where
  "exampleProof =
     \<lparr>authMessage = ''Authorize browser key: Public Key: aa11 Wallet: 0xw1 Expires: 1700'',
      walletSignature = ''9f'', expiryTimestamp = 1700, walletAddress = ''0xw1''\<rparr>"

definition walletMessage :: "string \<Rightarrow> OpchanMessage" where
  "walletMessage k =
     \<lparr>unsigned = Post \<lparr>id' = ''p1'', timestamp = 1000, author = ''0xw1'', cellId = ''k1'',
                         title = ''Hi'', content = ''World''\<rparr>,
      signature = ''5e'', browserPubKey = k, delegationProof = Some exampleProof\<rparr>"






section \<open>Properties of the derived maps\<close>





section \<open>Properties of the following service\<close>

lemma toggleFollow_cases:
  "toggleFollow now db u a =
     (if db_following db (u @ '':'' @ a) \<noteq> None
      then (False, db\<lparr>db_following := (db_following db)(u @ '':'' @ a := None)\<rparr>)
      else (True, db\<lparr>db_following := (db_following db)(u @ '':'' @ a \<mapsto>
              \<lparr>followingId = u @ '':'' @ a, userId = u, followedAddress = a,
                followedAt = now\<rparr>)\<rparr>))"
  by (simp add: toggleFollow_def db_isFollowing_def unfollowUser_def followUser_def
      addFollowing_def removeFollowing_def Let_def)

text \<open>
  C10.  \<open>toggleFollow\<close> returns the negation of the following state before the call, and
  after the call \<open>isFollowing\<close> equals the returned value: on \<open>true\<close> the record with the id
  \<open>userId + ":" + followedAddress\<close> has been added, on \<open>false\<close> that record has been
  removed; nothing else in the database changes.
\<close>

theorem toggleFollow_negates:
  "toggleFollow now db u a = (r, db') \<Longrightarrow>
     r = (\<not> isFollowing db u a) \<and> isFollowing db' u a = r \<and>
     (r \<longrightarrow> db' = db\<lparr>db_following := (db_following db)(u @ '':'' @ a \<mapsto>
              \<lparr>followingId = u @ '':'' @ a, userId = u, followedAddress = a,
                followedAt = now\<rparr>)\<rparr>) \<and>
     (\<not> r \<longrightarrow> db' = db\<lparr>db_following := (db_following db)(u @ '':'' @ a := None)\<rparr>)"
  by (auto simp: toggleFollow_cases isFollowing_def db_isFollowing_def split: if_splits)

theorem toggleFollow_negates_witness:
  "toggleFollow 1000 emptyDatabase ''0xa1'' ''0xb2'' =
     (True, emptyDatabase\<lparr>db_following := [''0xa1:0xb2'' \<mapsto>
        \<lparr>followingId = ''0xa1:0xb2'', userId = ''0xa1'', followedAddress = ''0xb2'',
          followedAt = 1000\<rparr>]\<rparr>) \<and>
   \<not> isFollowing emptyDatabase ''0xa1'' ''0xb2'' \<and>
   isFollowing (snd (toggleFollow 1000 emptyDatabase ''0xa1'' ''0xb2'')) ''0xa1'' ''0xb2''"
  using toggleFollow_negates [of 1000 emptyDatabase "''0xa1''" "''0xb2''" True
      "snd (toggleFollow 1000 emptyDatabase ''0xa1'' ''0xb2'')"]
  by (simp add: toggleFollow_cases emptyDatabase_def isFollowing_def db_isFollowing_def)

section \<open>Properties of message verification\<close>


lemma verifyMessage_with_proof:
  "delegationProof m = Some p \<Longrightarrow>
   verifyMessage env m \<longleftrightarrow>
     signatureValid env m \<and>
     viem_verifyMessage env (walletAddress p) (authMessage p) (walletSignature p) \<and>
     str_includes (authMessage p) (browserPubKey m) \<and>
     str_includes (authMessage p) (walletAddress p) \<and>
     str_includes (authMessage p) (toString (expiryTimestamp p))"
  by (simp add: verifyMessage_def Let_def)

lemma verifyMessage_without_proof:
  "delegationProof m = None \<Longrightarrow>
   verifyMessage env m \<longleftrightarrow>
     signatureValid env m \<and> sessionIdRegexTest (messageAuthor (unsigned m))"
  by (simp add: verifyMessage_def)







text \<open>
  C5.  Verification does not read the wall clock: at any two times it returns the same
  boolean for the same message.  In particular the expiry timestamp of the proof is not
  compared with the current time, and a message whose proof has expired still verifies.
\<close>

theorem verifyMessage_ignores_clock:
  "verifyMessage (env\<lparr>dateNow := t\<rparr>) m = verifyMessage (env\<lparr>dateNow := t'\<rparr>) m"
  by (cases "delegationProof m")
    (simp_all add: verifyMessage_with_proof verifyMessage_without_proof signatureValid_def
      messagePayload_def)

theorem verifyMessage_ignores_clock_witness:
  "expiryTimestamp exampleProof < dateNow (permissiveEnv\<lparr>dateNow := 999999\<rparr>) \<and>
   verifyMessage (permissiveEnv\<lparr>dateNow := 999999\<rparr>) (walletMessage ''aa11'')"
  using verifyMessage_ignores_clock
      [where env = permissiveEnv and t = 999999 and t' = 0 and m = "walletMessage ''aa11''"]
  by (simp add: walletMessage_def verifyMessage_with_proof signatureValid_def
      permissiveEnv_def exampleProof_def toString_def natToString.simps digitChar_def)

section \<open>Properties of the deduplication key\<close>











section \<open>Properties of applying a message\<close>

lemma apply_message_accepted:
  "apply_message env v db0 m = (Accepted, db) \<Longrightarrow>
     v m \<and> verifyMessage env m \<and> messageKey (unsigned m) \<in> db_seen db"
  by (auto simp: apply_message_def Let_def split: if_splits)

lemma updateIndex_seen [simp]: "db_seen (updateIndex db u) = db_seen db"
  by (cases u) (simp_all split: option.splits)

lemma updateIndex_last_sync [simp]: "last_sync_ms (updateIndex db u) = last_sync_ms db"
  by (cases u) (simp_all split: option.splits)

lemma apply_message_seen_mono:
  "db_seen db \<subseteq> db_seen (snd (apply_message env v db m))"
  by (auto simp: apply_message_def Let_def)

lemma foldl_apply_seen_mono:
  "db_seen db \<subseteq> db_seen (foldl (\<lambda>d x. snd (apply_message env v d x)) db ms)"
proof (induction ms arbitrary: db)
  case Nil
  show ?case by simp
next
  case (Cons x xs)
  show ?case
    using apply_message_seen_mono [of db env v x] Cons.IH [of "snd (apply_message env v db x)"]
    by auto
qed

text \<open>
  C6.  Applying a message is idempotent: once a message has been accepted, applying it
  again, to the state it was accepted into or to any state reached from there by applying
  further messages, reports a duplicate and returns the state unchanged, every index, the
  seen set and the last synchronisation time included.
\<close>

theorem apply_message_idempotent:
  assumes "apply_message env isValidStructure db0 m = (Accepted, db1)"
    and "db = foldl (\<lambda>d x. snd (apply_message env isValidStructure d x)) db1 later"
  shows "apply_message env isValidStructure db m = (Duplicate, db)"
proof -
  from assms(1) have a: "isValidStructure m" "verifyMessage env m"
    "messageKey (unsigned m) \<in> db_seen db1"
    by (auto dest: apply_message_accepted)
  from a(3) foldl_apply_seen_mono [of db1 env isValidStructure later] assms(2)
  have "messageKey (unsigned m) \<in> db_seen db" by auto
  with a(1,2) show ?thesis by (simp add: apply_message_def)
qed

lemma exampleVote_verifies:
  "verifyMessage permissiveEnv (anonymousMessage (Vote (exampleVote i ts v)))"
  by (simp add: anonymousMessage_def exampleVote_def sessionId_def verifyMessage_def
      signatureValid_def permissiveEnv_def sessionIdRegexTest_def isHexDigit_def)

lemma unsigned_anonymousMessage: "unsigned (anonymousMessage u) = u"
  by (simp add: anonymousMessage_def)

lemma exampleKey1:
  "messageKey (Vote (exampleVote ''v1'' 1000 1)) = ''vote:v1:1000''"
  by (simp add: messageKey_def exampleVote_def toString_def natToString.simps digitChar_def)

lemma exampleApply1:
  "apply_message permissiveEnv (\<lambda>_. True) emptyDatabase
     (anonymousMessage (Vote (exampleVote ''v1'' 1000 1))) =
   (Accepted, emptyDatabase
     \<lparr>db_votes := [(''p1'', sessionId) \<mapsto> exampleVote ''v1'' 1000 1],
      db_seen := {''vote:v1:1000''}, last_sync_ms := Some 1000\<rparr>)"
  by (simp add: apply_message_def Let_def exampleVote_verifies exampleKey1
      unsigned_anonymousMessage emptyDatabase_def bumpLastSync_def)
     (simp add: exampleVote_def)

theorem apply_message_idempotent_witness:
  "apply_message permissiveEnv (\<lambda>_. True) emptyDatabase
     (anonymousMessage (Vote (exampleVote ''v1'' 1000 1))) =
   (Accepted, emptyDatabase
     \<lparr>db_votes := [(''p1'', sessionId) \<mapsto> exampleVote ''v1'' 1000 1],
      db_seen := {''vote:v1:1000''}, last_sync_ms := Some 1000\<rparr>) \<and>
   apply_message permissiveEnv (\<lambda>_. True)
     (emptyDatabase
       \<lparr>db_votes := [(''p1'', sessionId) \<mapsto> exampleVote ''v1'' 1000 1],
        db_seen := {''vote:v1:1000''}, last_sync_ms := Some 1000\<rparr>)
     (anonymousMessage (Vote (exampleVote ''v1'' 1000 1))) =
   (Duplicate, emptyDatabase
     \<lparr>db_votes := [(''p1'', sessionId) \<mapsto> exampleVote ''v1'' 1000 1],
      db_seen := {''vote:v1:1000''}, last_sync_ms := Some 1000\<rparr>) \<and>
   apply_message permissiveEnv (\<lambda>_. True)
     (snd (apply_message permissiveEnv (\<lambda>_. True)
        (emptyDatabase
          \<lparr>db_votes := [(''p1'', sessionId) \<mapsto> exampleVote ''v1'' 1000 1],
           db_seen := {''vote:v1:1000''}, last_sync_ms := Some 1000\<rparr>)
        (anonymousMessage (Vote (exampleVote ''v2'' 3000 (- 1))))))
     (anonymousMessage (Vote (exampleVote ''v1'' 1000 1))) =
   (Duplicate,
    snd (apply_message permissiveEnv (\<lambda>_. True)
        (emptyDatabase
          \<lparr>db_votes := [(''p1'', sessionId) \<mapsto> exampleVote ''v1'' 1000 1],
           db_seen := {''vote:v1:1000''}, last_sync_ms := Some 1000\<rparr>)
        (anonymousMessage (Vote (exampleVote ''v2'' 3000 (- 1))))))"
  using apply_message_idempotent [OF exampleApply1, where later = "[]"]
    apply_message_idempotent [OF exampleApply1,
      where later = "[anonymousMessage (Vote (exampleVote ''v2'' 3000 (- 1)))]"]
    exampleApply1
  by simp






lemma exampleKeys':
  "messageKey (Vote (exampleVote ''a'' 2000 1)) = ''vote:a:2000''"
  "messageKey (Vote (exampleVote ''b'' 3000 (- 1))) = ''vote:b:3000''"
  by (simp_all add: messageKey_def exampleVote_def toString_def natToString.simps digitChar_def)


section \<open>Properties of the cell statistics\<close>



















section \<open>Properties of the relevance score\<close>











end
